theory Spec2Isabelle
  imports Main "HOL-Library.Word"
begin

section \<open>JavaScript strings and values\<close>

text \<open>
  A JavaScript string is a sequence of UTF-16 code units. String constants of the
  source are written \<open>ascii ''...''\<close>; template literals become concatenations.
\<close>

type_synonym cu = "16 word"
type_synonym jstring = "cu list"

definition ascii :: "string \<Rightarrow> jstring" where
  "ascii s = map of_char s"

text \<open>The values \<open>JSON.parse\<close> can produce. A number keeps its literal: the double it
  denotes is a function of the literal, and formatting doubles is left to the platform
  (\<open>number_ops\<close> below). An object is the list of its own properties in the order
  in which JavaScript enumerates them.\<close>

datatype json =
    JNull
  | JBool bool
  | JNumber jstring
  | JString jstring
  | JArray "json list"
  | JObject "(jstring \<times> json) list"

text \<open>What the platform does with the number a literal denotes: \<open>Number::toString\<close>
  and whether the number is finite (\<open>1e999\<close> parses to \<open>Infinity\<close>).\<close>

record number_ops =
  NumberToString :: "jstring \<Rightarrow> jstring"
  isFinite :: "jstring \<Rightarrow> bool"

fun join :: "jstring \<Rightarrow> jstring list \<Rightarrow> jstring" where
  "join sep [] = []"
| "join sep [x] = x"
| "join sep (x # y # ys) = x @ sep @ join sep (y # ys)"

subsection \<open>\<open>JSON.stringify\<close>\<close>

definition hexdigit :: "nat \<Rightarrow> cu" where
  "hexdigit n = (if n < 10 then of_nat (48 + n) else of_nat (87 + n))"

definition UnicodeEscape :: "cu \<Rightarrow> jstring" where
  "UnicodeEscape c =
     (let n = unat c in
      [0x5C, 0x75, hexdigit (n div 4096 mod 16), hexdigit (n div 256 mod 16),
       hexdigit (n div 16 mod 16), hexdigit (n mod 16)])"

definition is_leading_surrogate :: "cu \<Rightarrow> bool" where
  "is_leading_surrogate c = (0xD800 \<le> c \<and> c \<le> 0xDBFF)"

definition is_trailing_surrogate :: "cu \<Rightarrow> bool" where
  "is_trailing_surrogate c = (0xDC00 \<le> c \<and> c \<le> 0xDFFF)"

text \<open>One code unit that is not half of a surrogate pair, as \<open>QuoteJSONString\<close>
  writes it: the short escapes, \<open>\uXXXX\<close> for the other control characters and for a lone
  surrogate, the unit itself otherwise.\<close>

definition quote_unit :: "cu \<Rightarrow> jstring" where
  "quote_unit c =
     (if c = 0x08 then [0x5C, 0x62]
      else if c = 0x09 then [0x5C, 0x74]
      else if c = 0x0A then [0x5C, 0x6E]
      else if c = 0x0C then [0x5C, 0x66]
      else if c = 0x0D then [0x5C, 0x72]
      else if c = 0x22 then [0x5C, 0x22]
      else if c = 0x5C then [0x5C, 0x5C]
      else if c < 0x20 \<or> is_leading_surrogate c \<or> is_trailing_surrogate c
        then UnicodeEscape c
      else [c])"

fun quote_body :: "jstring \<Rightarrow> jstring" where
  "quote_body [] = []"
| "quote_body [c] = quote_unit c"
| "quote_body (c # d # ds) =
     (if is_leading_surrogate c \<and> is_trailing_surrogate d then c # d # quote_body ds
      else quote_unit c @ quote_body (d # ds))"

definition QuoteJSONString :: "jstring \<Rightarrow> jstring" where
  "QuoteJSONString s = 0x22 # quote_body s @ [0x22]"

fun JSON_stringify :: "number_ops \<Rightarrow> json \<Rightarrow> jstring" where
  "JSON_stringify ops JNull = ascii ''null''"
| "JSON_stringify ops (JBool b) = (if b then ascii ''true'' else ascii ''false'')"
| "JSON_stringify ops (JNumber n) =
     (if isFinite ops n then NumberToString ops n else ascii ''null'')"
| "JSON_stringify ops (JString s) = QuoteJSONString s"
| "JSON_stringify ops (JArray vs) =
     ascii ''['' @ join (ascii '','') (map (JSON_stringify ops) vs) @ ascii '']''"
| "JSON_stringify ops (JObject ms) =
     ascii ''{'' @
     join (ascii '','')
       (map (\<lambda>m. QuoteJSONString (fst m) @ ascii '':'' @ JSON_stringify ops (snd m)) ms) @
     ascii ''}''"

subsection \<open>\<open>JSON.parse\<close>: the lexer\<close>

datatype token =
    TLBrace | TRBrace | TLBrack | TRBrack | TColon | TComma
  | TStr jstring | TNum jstring | TTrue | TFalse | TNull

text \<open>Where the scanner is inside a number literal
  \<open>-? (0 | [1-9][0-9]*) (. [0-9]+)? ([eE] [+-]? [0-9]+)?\<close>.\<close>

datatype nstate = NMinus | NZero | NInt | NDot | NFrac | NExp | NExpSign | NExpDig

datatype lstate =
    LStart
  | LStr jstring
  | LEsc jstring
  | LUni jstring nat nat
  | LLit token jstring
  | LNum nstate jstring

definition is_digit :: "cu \<Rightarrow> bool" where
  "is_digit c = (0x30 \<le> c \<and> c \<le> 0x39)"

definition unhex :: "cu \<Rightarrow> nat option" where
  "unhex c =
     (if 0x30 \<le> c \<and> c \<le> 0x39 then Some (unat c - 48)
      else if 0x61 \<le> c \<and> c \<le> 0x66 then Some (unat c - 87)
      else if 0x41 \<le> c \<and> c \<le> 0x46 then Some (unat c - 55)
      else None)"

fun nstep :: "nstate \<Rightarrow> cu \<Rightarrow> nstate option" where
  "nstep NMinus c =
     (if c = 0x30 then Some NZero else if is_digit c then Some NInt else None)"
| "nstep NZero c =
     (if c = 0x2E then Some NDot else if c = 0x65 \<or> c = 0x45 then Some NExp else None)"
| "nstep NInt c =
     (if is_digit c then Some NInt else if c = 0x2E then Some NDot
      else if c = 0x65 \<or> c = 0x45 then Some NExp else None)"
| "nstep NDot c = (if is_digit c then Some NFrac else None)"
| "nstep NFrac c =
     (if is_digit c then Some NFrac else if c = 0x65 \<or> c = 0x45 then Some NExp else None)"
| "nstep NExp c =
     (if c = 0x2B \<or> c = 0x2D then Some NExpSign
      else if is_digit c then Some NExpDig else None)"
| "nstep NExpSign c = (if is_digit c then Some NExpDig else None)"
| "nstep NExpDig c = (if is_digit c then Some NExpDig else None)"

fun nfinal :: "nstate \<Rightarrow> bool" where
  "nfinal NZero = True"
| "nfinal NInt = True"
| "nfinal NFrac = True"
| "nfinal NExpDig = True"
| "nfinal _ = False"

text \<open>The scanner between tokens: white space is skipped, punctuation is a token,
  anything else opens a string, a number or one of \<open>true false null\<close>.\<close>

definition lstart :: "cu \<Rightarrow> (token list \<times> lstate) option" where
  "lstart c =
     (if c = 0x20 \<or> c = 0x09 \<or> c = 0x0A \<or> c = 0x0D then Some ([], LStart)
      else if c = 0x7B then Some ([TLBrace], LStart)
      else if c = 0x7D then Some ([TRBrace], LStart)
      else if c = 0x5B then Some ([TLBrack], LStart)
      else if c = 0x5D then Some ([TRBrack], LStart)
      else if c = 0x3A then Some ([TColon], LStart)
      else if c = 0x2C then Some ([TComma], LStart)
      else if c = 0x22 then Some ([], LStr [])
      else if c = 0x2D then Some ([], LNum NMinus [c])
      else if c = 0x30 then Some ([], LNum NZero [c])
      else if is_digit c then Some ([], LNum NInt [c])
      else if c = 0x74 then Some ([], LLit TTrue (ascii ''rue''))
      else if c = 0x66 then Some ([], LLit TFalse (ascii ''alse''))
      else if c = 0x6E then Some ([], LLit TNull (ascii ''ull''))
      else None)"

fun lstep :: "lstate \<Rightarrow> cu \<Rightarrow> (token list \<times> lstate) option" where
  "lstep LStart c = lstart c"
| "lstep (LStr acc) c =
     (if c = 0x22 then Some ([TStr acc], LStart)
      else if c = 0x5C then Some ([], LEsc acc)
      else if c < 0x20 then None
      else Some ([], LStr (acc @ [c])))"
| "lstep (LEsc acc) c =
     (if c = 0x22 \<or> c = 0x5C \<or> c = 0x2F then Some ([], LStr (acc @ [c]))
      else if c = 0x62 then Some ([], LStr (acc @ [0x08]))
      else if c = 0x66 then Some ([], LStr (acc @ [0x0C]))
      else if c = 0x6E then Some ([], LStr (acc @ [0x0A]))
      else if c = 0x72 then Some ([], LStr (acc @ [0x0D]))
      else if c = 0x74 then Some ([], LStr (acc @ [0x09]))
      else if c = 0x75 then Some ([], LUni acc 4 0)
      else None)"
| "lstep (LUni acc k v) c =
     (case unhex c of
        None \<Rightarrow> None
      | Some d \<Rightarrow>
          if k \<le> 1 then Some ([], LStr (acc @ [of_nat (v * 16 + d)]))
          else Some ([], LUni acc (k - 1) (v * 16 + d)))"
| "lstep (LLit tok []) c = None"
| "lstep (LLit tok (e # es)) c =
     (if c \<noteq> e then None
      else if es = [] then Some ([tok], LStart)
      else Some ([], LLit tok es))"
| "lstep (LNum ns acc) c =
     (case nstep ns c of
        Some ns' \<Rightarrow> Some ([], LNum ns' (acc @ [c]))
      | None \<Rightarrow>
          if nfinal ns then
            (case lstart c of
               None \<Rightarrow> None
             | Some (ts, st) \<Rightarrow> Some (TNum acc # ts, st))
          else None)"

fun lfinish :: "lstate \<Rightarrow> token list option" where
  "lfinish LStart = Some []"
| "lfinish (LNum ns acc) = (if nfinal ns then Some [TNum acc] else None)"
| "lfinish _ = None"

text \<open>The scanner's loop over the code units, with the tokens found so far.\<close>

fun lrun :: "lstate \<Rightarrow> token list \<Rightarrow> jstring \<Rightarrow> token list option" where
  "lrun st out [] = (case lfinish st of None \<Rightarrow> None | Some ts \<Rightarrow> Some (out @ ts))"
| "lrun st out (c # cs) =
     (case lstep st c of
        None \<Rightarrow> None
      | Some (ts, st') \<Rightarrow> lrun st' (out @ ts) cs)"

definition lex :: "jstring \<Rightarrow> token list option" where
  "lex s = lrun LStart [] s"

subsection \<open>\<open>JSON.parse\<close>: objects and the parser\<close>

text \<open>JavaScript enumerates the own properties of an object with the array indices
  first, in ascending order, then the other keys in the order of their creation; a
  repeated key keeps its place and takes the later value.\<close>

fun dec :: "nat \<Rightarrow> jstring \<Rightarrow> nat" where
  "dec v [] = v"
| "dec v (c # cs) = dec (v * 10 + (unat c - 48)) cs"

definition is_array_index :: "jstring \<Rightarrow> bool" where
  "is_array_index k =
     (k \<noteq> [] \<and> list_all is_digit k \<and> (k = [0x30] \<or> hd k \<noteq> 0x30) \<and>
      dec 0 k < 4294967295)"

fun replace_value :: "jstring \<Rightarrow> json \<Rightarrow> (jstring \<times> json) list \<Rightarrow> (jstring \<times> json) list" where
  "replace_value k v [] = []"
| "replace_value k v (m # ms) =
     (if fst m = k then (k, v) # ms else m # replace_value k v ms)"

fun insert_index :: "jstring \<Rightarrow> json \<Rightarrow> (jstring \<times> json) list \<Rightarrow> (jstring \<times> json) list" where
  "insert_index k v [] = [(k, v)]"
| "insert_index k v (m # ms) =
     (if is_array_index (fst m) \<and> dec 0 (fst m) < dec 0 k then m # insert_index k v ms
      else (k, v) # m # ms)"

definition obj_set :: "(jstring \<times> json) list \<Rightarrow> jstring \<Rightarrow> json \<Rightarrow> (jstring \<times> json) list" where
  "obj_set ms k v =
     (if k \<in> fst ` set ms then replace_value k v ms
      else if is_array_index k then insert_index k v ms
      else ms @ [(k, v)])"

text \<open>The parser is a machine over the tokens with an explicit stack of the arrays and
  objects that are still open.\<close>

datatype frame =
    FArr "json list"
  | FObj "(jstring \<times> json) list" jstring

datatype pmode =
    MVal
  | MArr0
  | MObj0
  | MKey "(jstring \<times> json) list"
  | MColon "(jstring \<times> json) list" jstring
  | MAfter json

fun pvalue :: "frame list \<Rightarrow> token \<Rightarrow> (frame list \<times> pmode) option" where
  "pvalue st (TStr s) = Some (st, MAfter (JString s))"
| "pvalue st (TNum n) = Some (st, MAfter (JNumber n))"
| "pvalue st TTrue = Some (st, MAfter (JBool True))"
| "pvalue st TFalse = Some (st, MAfter (JBool False))"
| "pvalue st TNull = Some (st, MAfter JNull)"
| "pvalue st TLBrack = Some (FArr [] # st, MArr0)"
| "pvalue st TLBrace = Some (st, MObj0)"
| "pvalue st _ = None"

fun pafter :: "frame list \<Rightarrow> json \<Rightarrow> token \<Rightarrow> (frame list \<times> pmode) option" where
  "pafter [] v t = None"
| "pafter (FArr es # st) v t =
     (if t = TComma then Some (FArr (es @ [v]) # st, MVal)
      else if t = TRBrack then Some (st, MAfter (JArray (es @ [v])))
      else None)"
| "pafter (FObj ms k # st) v t =
     (if t = TComma then Some (st, MKey (obj_set ms k v))
      else if t = TRBrace then Some (st, MAfter (JObject (obj_set ms k v)))
      else None)"

fun pstep :: "frame list \<times> pmode \<Rightarrow> token \<Rightarrow> (frame list \<times> pmode) option" where
  "pstep (st, MVal) t = pvalue st t"
| "pstep (st, MArr0) t =
     (if t = TRBrack then
        (case st of FArr es # st' \<Rightarrow> Some (st', MAfter (JArray es)) | _ \<Rightarrow> None)
      else pvalue st t)"
| "pstep (st, MObj0) t =
     (case t of
        TRBrace \<Rightarrow> Some (st, MAfter (JObject []))
      | TStr k \<Rightarrow> Some (st, MColon [] k)
      | _ \<Rightarrow> None)"
| "pstep (st, MKey ms) t = (case t of TStr k \<Rightarrow> Some (st, MColon ms k) | _ \<Rightarrow> None)"
| "pstep (st, MColon ms k) t = (if t = TColon then Some (FObj ms k # st, MVal) else None)"
| "pstep (st, MAfter v) t = pafter st v t"

fun pfinish :: "frame list \<times> pmode \<Rightarrow> json option" where
  "pfinish ([], MAfter v) = Some v"
| "pfinish _ = None"

fun prun :: "frame list \<times> pmode \<Rightarrow> token list \<Rightarrow> json option" where
  "prun s [] = pfinish s"
| "prun s (t # ts) = (case pstep s t of None \<Rightarrow> None | Some s' \<Rightarrow> prun s' ts)"

text \<open>\<open>JSON.parse\<close>: \<open>None\<close> is the \<open>SyntaxError\<close> it throws.\<close>

definition JSON_parse :: "jstring \<Rightarrow> json option" where
  "JSON_parse s = (case lex s of None \<Rightarrow> None | Some ts \<Rightarrow> prun ([], MVal) ts)"

subsection \<open>Template literals and property access\<close>

text \<open>\<open>ToString\<close> of a parsed value, as a template literal applies it: an array joins
  its elements with commas, writing nothing for \<open>null\<close>.\<close>

fun ToString :: "number_ops \<Rightarrow> json \<Rightarrow> jstring" where
  "ToString ops JNull = ascii ''null''"
| "ToString ops (JBool b) = (if b then ascii ''true'' else ascii ''false'')"
| "ToString ops (JNumber n) = NumberToString ops n"
| "ToString ops (JString s) = s"
| "ToString ops (JArray vs) =
     join (ascii '','') (map (\<lambda>v. if v = JNull then [] else ToString ops v) vs)"
| "ToString ops (JObject ms) = ascii ''[object Object]''"

text \<open>A value read from a property is \<open>None\<close> when it is \<open>undefined\<close>.\<close>

definition template :: "number_ops \<Rightarrow> json option \<Rightarrow> jstring" where
  "template ops v = (case v of None \<Rightarrow> ascii ''undefined'' | Some j \<Rightarrow> ToString ops j)"

datatype error =
    S3Error jstring
  | Error jstring
  | SyntaxError
  | TypeError
  | FetchError jstring

text \<open>\<open>v.k\<close> for the property names the source reads (\<open>clientID\<close>, \<open>redirectUrl\<close>,
  \<open>authEndpoint\<close>, \<open>apiUrl\<close>, \<open>id_token\<close>): none of them is a property of a
  prototype, so a value that is not an object with that own property gives \<open>undefined\<close>,
  and \<open>null\<close> throws.\<close>

definition get_property :: "json \<Rightarrow> jstring \<Rightarrow> error + json option" where
  "get_property v k =
     (case v of
        JNull \<Rightarrow> Inl TypeError
      | JObject ms \<Rightarrow> Inr (map_of ms k)
      | _ \<Rightarrow> Inr None)"

section \<open>The request pipeline\<close>

subsection \<open>Collaborators and effects\<close>

record s3_output =
  Body :: "jstring option"

record fetch_request =
  req_url :: jstring
  req_method :: jstring
  req_headers :: "(jstring \<times> jstring) list"
  req_body :: jstring

record fetch_response =
  resp_status :: nat
  resp_text :: jstring

text \<open>What a handler runs against: the S3 client (\<open>getObject\<close> of a bucket and a key
  resolves with an output or rejects), \<open>fetch\<close> (resolves with a response, whatever its
  status, or rejects), the platform's numbers, and the identifier of the bucket.\<close>

record env =
  s3_getObject :: "jstring \<Rightarrow> jstring \<Rightarrow> error + s3_output option"
  fetch :: "fetch_request \<Rightarrow> error + fetch_response"
  numbers :: number_ops
  bucket_id :: jstring

datatype effect =
    GetObject jstring jstring
  | Fetch fetch_request

text \<open>An asynchronous computation: the outbound calls it made, in order, and either the
  error it was rejected with or its value.\<close>

type_synonym 'a action = "effect list \<times> (error + 'a)"

definition resolve :: "'a \<Rightarrow> 'a action" where
  "resolve x = ([], Inr x)"

definition throw :: "error \<Rightarrow> 'a action" where
  "throw e = ([], Inl e)"

definition attempt :: "error + 'a \<Rightarrow> 'a action" where
  "attempt r = ([], r)"

definition await :: "'a action \<Rightarrow> ('a \<Rightarrow> 'b action) \<Rightarrow> 'b action" where
  "await m f =
     (case m of
        (t, Inl e) \<Rightarrow> (t, Inl e)
      | (t, Inr x) \<Rightarrow> (case f x of (t', r) \<Rightarrow> (t @ t', r)))"

definition getObject :: "env \<Rightarrow> jstring \<Rightarrow> jstring \<Rightarrow> s3_output option action" where
  "getObject e b k = ([GetObject b k], s3_getObject e b k)"

definition do_fetch :: "env \<Rightarrow> fetch_request \<Rightarrow> fetch_response action" where
  "do_fetch e rq = ([Fetch rq], fetch e rq)"

text \<open>\<open>resp.json()\<close>: the body's text through \<open>JSON.parse\<close>; rejected when it does
  not parse.\<close>

definition resp_json :: "fetch_response \<Rightarrow> json action" where
  "resp_json resp =
     (case JSON_parse (resp_text resp) of
        None \<Rightarrow> throw (FetchError (ascii ''invalid-json''))
      | Some j \<Rightarrow> resolve j)"

subsection \<open>Handlers\<close>

definition configFilename :: jstring where
  "configFilename = ascii ''config.json''"

definition getAppConfig :: "env \<Rightarrow> json action" where
  "getAppConfig e =
     await (getObject e (bucket_id e) configFilename) (\<lambda>file.
       case file of
         None \<Rightarrow> throw (Error (ascii ''Doh!''))
       | Some f \<Rightarrow>
           (case Body f of
              None \<Rightarrow> throw (Error (ascii ''Doh!''))
            | Some b \<Rightarrow>
                (case JSON_parse b of
                   None \<Rightarrow> throw SyntaxError
                 | Some config \<Rightarrow> resolve config)))"

record event =
  queryStringParameters :: "(jstring \<rightharpoonup> jstring) option"

record response =
  statusCode :: nat
  body :: jstring
  headers :: "(jstring \<times> jstring) list"

definition config_handler :: "env \<Rightarrow> event \<Rightarrow> response action" where
  "config_handler e ev =
     await (getAppConfig e) (\<lambda>config.
       resolve \<lparr>statusCode = 200, body = JSON_stringify (numbers e) config, headers = []\<rparr>)"

definition bad_request :: response where
  "bad_request =
     \<lparr>statusCode = 400, body = ascii ''Bad request. Code property was missing.'',
      headers = []\<rparr>"

text \<open>The callback handler from the point where \<open>code\<close> is known to be there.\<close>

definition exchange :: "env \<Rightarrow> jstring \<Rightarrow> response action" where
  "exchange e code =
     await (getAppConfig e) (\<lambda>config.
     await (attempt (get_property config (ascii ''clientID''))) (\<lambda>clientID'.
     await (attempt (get_property config (ascii ''redirectUrl''))) (\<lambda>redirectUrl'.
     let params =
       [ascii ''grant_type=authorization_code'',
        ascii ''client_id='' @ template (numbers e) clientID',
        ascii ''redirect_uri='' @ template (numbers e) redirectUrl',
        ascii ''code='' @ code]
     in
     await (attempt (get_property config (ascii ''authEndpoint''))) (\<lambda>authEndpoint'.
     await (do_fetch e
        \<lparr>req_url = template (numbers e) authEndpoint' @ ascii ''/oauth2/token'',
         req_method = ascii ''POST'',
         req_headers = [(ascii ''Content-Type'', ascii ''application/x-www-form-urlencoded'')],
         req_body = join (ascii ''&'') params\<rparr>) (\<lambda>resp.
     await (resp_json resp) (\<lambda>token.
     await (attempt (get_property token (ascii ''id_token''))) (\<lambda>cookie_token.
     await (attempt (get_property config (ascii ''apiUrl''))) (\<lambda>apiUrl'.
     await (attempt (get_property token (ascii ''id_token''))) (\<lambda>location_token.
     resolve
       \<lparr>statusCode = 302,
        body = JSON_stringify (numbers e) (JObject []),
        headers =
          [(ascii ''Set-Cookie'', ascii ''id='' @ template (numbers e) cookie_token),
           (ascii ''Location'',
            template (numbers e) apiUrl' @ ascii ''?id='' @
            template (numbers e) location_token)]\<rparr>)))))))))"

text \<open>\<open>!event.queryStringParameters || !event.queryStringParameters.code\<close>: no
  parameters, no \<open>code\<close> among them, or an empty \<open>code\<close>.\<close>

definition callback_handler :: "env \<Rightarrow> event \<Rightarrow> response action" where
  "callback_handler e ev =
     (case queryStringParameters ev of
        None \<Rightarrow> resolve bad_request
      | Some q \<Rightarrow>
          (case q (ascii ''code'') of
             None \<Rightarrow> resolve bad_request
           | Some code \<Rightarrow> if code = [] then resolve bad_request else exchange e code))"

definition api_handler :: "env \<Rightarrow> event \<Rightarrow> response action" where
  "api_handler e ev =
     resolve
       \<lparr>statusCode = 200,
        body = JSON_stringify (numbers e) (JObject [(ascii ''awesome'', JBool True)]),
        headers = []\<rparr>"

text \<open>The gateway that hosts the handlers is outside the program. It answers with the
  response a handler returned, and with a 502 response that carries nothing of the
  handler's when the handler failed.\<close>

definition surfaced :: "response action \<Rightarrow> response" where
  "surfaced a =
     (case snd a of
        Inr r \<Rightarrow> r
      | Inl err \<Rightarrow> \<lparr>statusCode = 502, body = ascii ''Internal server error'', headers = []\<rparr>)"

text \<open>The outbound token-exchange calls of a run.\<close>

fun fetches :: "effect list \<Rightarrow> fetch_request list" where
  "fetches [] = []"
| "fetches (Fetch rq # es) = rq # fetches es"
| "fetches (GetObject b k # es) = fetches es"

section \<open>Provisioning\<close>

text \<open>The constants at the top of the program that decide on the custom domain, as
  settings, so that a deployment with and one without a custom domain can be compared;
  \<open>source_settings\<close> holds the values the source is written with.\<close>

record settings =
  gatewayDomain :: jstring
  basePath :: jstring

definition source_settings :: settings where
  "source_settings = \<lparr>gatewayDomain = ascii ''nunciato.org'', basePath = ascii ''stage''\<rparr>"

definition authDomain :: jstring where
  "authDomain = ascii ''cnunciato-test''"

definition region :: jstring where
  "region = ascii ''us-east-1''"

definition gatewayHostname :: "settings \<Rightarrow> jstring" where
  "gatewayHostname s = ascii ''api.'' @ gatewayDomain s"

text \<open>What the created resources resolve to: the gateway's generated URL
  (\<open>api.url\<close>), the identifier of the client registration (\<open>client.id\<close>), the
  domain prefix of the user pool's domain (\<open>domain.domain\<close>) and the bucket's
  identifier (\<open>bucket.id\<close>).\<close>

record outputs =
  api_url :: jstring
  client_id :: jstring
  domain_domain :: jstring
  bucket_name :: jstring

text \<open>\<open>gatewayDomain && gatewayHostname && basePath\<close>: a string is truthy when it is
  not empty.\<close>

definition useCustomDomain :: "settings \<Rightarrow> bool" where
  "useCustomDomain s = (gatewayDomain s \<noteq> [] \<and> gatewayHostname s \<noteq> [] \<and> basePath s \<noteq> [])"

definition getAPIUrl :: "settings \<Rightarrow> outputs \<Rightarrow> jstring option \<Rightarrow> jstring" where
  "getAPIUrl s out path =
     (if useCustomDomain s then
        ascii ''https://'' @ gatewayHostname s @ ascii ''/'' @ basePath s @ ascii ''/'' @
        (case path of
           None \<Rightarrow> []
         | Some p \<Rightarrow> if p \<noteq> [] then p @ ascii ''/'' else [])
      else api_url out)"

record user_pool_client =
  generateSecret :: bool
  allowedOauthFlowsUserPoolClient :: bool
  supportedIdentityProviders :: "jstring list"
  allowedOauthFlows :: "jstring list"
  allowedOauthScopes :: "jstring list"
  callbackUrls :: "jstring list"
  logoutUrls :: "jstring list"

definition client :: "settings \<Rightarrow> outputs \<Rightarrow> user_pool_client" where
  "client s out =
     \<lparr>generateSecret = False,
      allowedOauthFlowsUserPoolClient = True,
      supportedIdentityProviders = [ascii ''COGNITO''],
      allowedOauthFlows = [ascii ''code''],
      allowedOauthScopes =
        [ascii ''email'', ascii ''profile'', ascii ''openid'',
         ascii ''aws.cognito.signin.user.admin''],
      callbackUrls = [getAPIUrl s out (Some (ascii ''callback''))],
      logoutUrls = [getAPIUrl s out (Some (ascii ''logout''))]\<rparr>"

record AppConfig =
  clientID :: jstring
  redirectUrl :: jstring
  authEndpoint :: jstring
  apiUrl :: jstring
  signUpUrl :: jstring
  signInUrl :: jstring

text \<open>The object \<open>c\<close> that the callback of \<open>pulumi.all(...).apply\<close> builds from the
  resolved client identifier, API URL, callback URL and domain prefix.\<close>

definition assemble :: "jstring \<Rightarrow> jstring \<Rightarrow> jstring \<Rightarrow> jstring \<Rightarrow> AppConfig" where
  "assemble clientID' apiUrl' callbackUrl authEndpoint' =
     (let cognitoUrl =
            ascii ''https://'' @ authEndpoint' @ ascii ''.auth.'' @ region @
            ascii ''.amazoncognito.com'';
          cognitoUrlParams =
            ascii ''client_id='' @ clientID' @ ascii ''&response_type=code&redirect_uri='' @
            callbackUrl
      in \<lparr>clientID = clientID',
          redirectUrl = callbackUrl,
          authEndpoint = cognitoUrl,
          apiUrl = apiUrl',
          signUpUrl = cognitoUrl @ ascii ''/signup?'' @ cognitoUrlParams,
          signInUrl = cognitoUrl @ ascii ''/login?'' @ cognitoUrlParams\<rparr>)"

text \<open>The object as JavaScript holds it: its properties in the order in which the
  object literal of the source lists them.\<close>

definition AppConfig_object :: "AppConfig \<Rightarrow> json" where
  "AppConfig_object c =
     JObject
       [(ascii ''clientID'', JString (clientID c)),
        (ascii ''apiUrl'', JString (apiUrl c)),
        (ascii ''redirectUrl'', JString (redirectUrl c)),
        (ascii ''authEndpoint'', JString (authEndpoint c)),
        (ascii ''signUpUrl'', JString (signUpUrl c)),
        (ascii ''signInUrl'', JString (signInUrl c))]"

definition resolved_config :: "settings \<Rightarrow> outputs \<Rightarrow> AppConfig" where
  "resolved_config s out =
     assemble (client_id out) (getAPIUrl s out None)
       (getAPIUrl s out (Some (ascii ''callback''))) (domain_domain out)"

definition config :: "number_ops \<Rightarrow> settings \<Rightarrow> outputs \<Rightarrow> jstring" where
  "config ops s out = JSON_stringify ops (AppConfig_object (resolved_config s out))"

subsection \<open>The Config Store\<close>

text \<open>The object storage is outside the program. It maps a bucket and a key to the object
  written there; reading a key that holds no object is rejected.\<close>

type_synonym s3_store = "jstring \<times> jstring \<rightharpoonup> s3_output"

definition store_getObject :: "s3_store \<Rightarrow> jstring \<Rightarrow> jstring \<Rightarrow> error + s3_output option" where
  "store_getObject st b k =
     (case st (b, k) of
        None \<Rightarrow> Inl (S3Error (ascii ''NoSuchKey''))
      | Some obj \<Rightarrow> Inr (Some obj))"

definition putObject :: "s3_store \<Rightarrow> jstring \<Rightarrow> jstring \<Rightarrow> jstring \<Rightarrow> s3_store" where
  "putObject st b k content = st((b, k) \<mapsto> \<lparr>Body = Some content\<rparr>)"

text \<open>\<open>bucketObject\<close>: the serialized configuration written under
  \<open>configFilename\<close> in the bucket.\<close>

definition bucketObject :: "number_ops \<Rightarrow> settings \<Rightarrow> outputs \<Rightarrow> s3_store \<Rightarrow> s3_store" where
  "bucketObject ops s out st = putObject st (bucket_name out) configFilename (config ops s out)"

section \<open>An example deployment\<close>

text \<open>A platform whose numbers print as they were written, the outputs of one deployment,
  the Config Store after provisioning, an environment over a store in which the identity
  provider gives one fixed answer, and a callback request carrying a code.\<close>

definition plain_numbers :: number_ops where
  "plain_numbers = \<lparr>NumberToString = (\<lambda>n. n), isFinite = (\<lambda>n. True)\<rparr>"

definition example_outputs :: outputs where
  "example_outputs =
     \<lparr>api_url = ascii ''https://abc123.execute-api.us-east-1.amazonaws.com/stage/'',
      client_id = ascii ''client1'',
      domain_domain = authDomain,
      bucket_name = ascii ''bucket-0a1b2c3''\<rparr>"

definition example_env :: "s3_store \<Rightarrow> (error + fetch_response) \<Rightarrow> env" where
  "example_env st answer =
     \<lparr>s3_getObject = store_getObject st,
      fetch = (\<lambda>rq. answer),
      numbers = plain_numbers,
      bucket_id = bucket_name example_outputs\<rparr>"

definition published :: s3_store where
  "published = bucketObject plain_numbers source_settings example_outputs Map.empty"

definition callback_event :: "jstring \<Rightarrow> event" where
  "callback_event c = \<lparr>queryStringParameters = Some [ascii ''code'' \<mapsto> c]\<rparr>"

definition token_response :: "jstring \<Rightarrow> error + fetch_response" where
  "token_response b = Inr \<lparr>resp_status = 200, resp_text = b\<rparr>"

definition no_event :: event where
  "no_event = \<lparr>queryStringParameters = None\<rparr>"

definition unreachable :: "error + fetch_response" where
  "unreachable = Inl (FetchError (ascii ''ECONNREFUSED''))"

section \<open>Scanning a serialized string\<close>


lemma hex_value:
  assumes n: "n < 65536"
  shows "((n div 4096 mod 16 * 16 + n div 256 mod 16) * 16 + n div 16 mod 16) * 16 + n mod 16
         = (n::nat)"
proof -
  define x3 where "x3 = n div 4096"
  define x2 where "x2 = n div 256 mod 16"
  define x1 where "x1 = n div 16 mod 16"
  define x0 where "x0 = n mod 16"
  define m2 where "m2 = n div 256"
  define m1 where "m1 = n div 16"
  have a: "n div 4096 mod 16 = x3" using n by (simp add: x3_def)
  have "n div 4096 = n div 256 div 16" by (simp add: div_mult2_eq)
  then have b: "m2 = 16 * x3 + x2" by (simp add: m2_def x3_def x2_def)
  have "n div 256 = n div 16 div 16" by (simp add: div_mult2_eq)
  then have c: "m1 = 16 * m2 + x1" by (simp add: m2_def m1_def x1_def)
  have d: "n = 16 * m1 + x0" by (simp add: m1_def x0_def)
  have "((x3 * 16 + x2) * 16 + x1) * 16 + x0 = n"
    using b c d by simp
  then show ?thesis
    by (simp only: a x2_def x1_def x0_def)
qed

lemma nibble_cases:
  assumes "n < (16::nat)"
  obtains "n = 0" | "n = 1" | "n = 2" | "n = 3" | "n = 4" | "n = 5" | "n = 6" | "n = 7"
    | "n = 8" | "n = 9" | "n = 10" | "n = 11" | "n = 12" | "n = 13" | "n = 14" | "n = 15"
  using assms by (auto simp: eval_nat_numeral less_Suc_eq)

lemma unhex_hexdigit: "n < 16 \<Longrightarrow> unhex (hexdigit n) = Some n"
  by (erule nibble_cases) (simp_all add: unhex_def hexdigit_def)

lemma lrun_LUni:
  assumes "d3 < 16" "d2 < 16" "d1 < 16" "d0 < 16"
  shows "lrun (LUni acc 4 0) out (hexdigit d3 # hexdigit d2 # hexdigit d1 # hexdigit d0 # rest)
         = lrun (LStr (acc @ [of_nat (((d3 * 16 + d2) * 16 + d1) * 16 + d0)])) out rest"
  using assms by (simp add: unhex_hexdigit del: of_nat_add of_nat_mult)

lemma lrun_UnicodeEscape:
  "lrun (LStr acc) out (UnicodeEscape c @ rest) = lrun (LStr (acc @ [c])) out rest"
proof -
  define n where "n = unat c"
  have n: "n < 65536" using unsigned_less [of c] by (simp add: n_def)
  have c: "of_nat n = c" by (simp add: n_def)
  define hs where "hs = hexdigit (n div 4096 mod 16) # hexdigit (n div 256 mod 16) #
          hexdigit (n div 16 mod 16) # hexdigit (n mod 16) # rest"
  have "UnicodeEscape c @ rest = 0x5C # 0x75 # hs"
    by (simp add: UnicodeEscape_def Let_def n_def hs_def)
  then have "lrun (LStr acc) out (UnicodeEscape c @ rest) = lrun (LUni acc 4 0) out hs"
    by simp
  also have "\<dots> = lrun (LStr (acc @ [of_nat
      (((n div 4096 mod 16 * 16 + n div 256 mod 16) * 16 + n div 16 mod 16) * 16 + n mod 16)]))
      out rest"
    unfolding hs_def by (rule lrun_LUni) simp_all
  finally show ?thesis by (simp only: hex_value [OF n] c)
qed

lemma surrogate_plain:
  "is_leading_surrogate c \<or> is_trailing_surrogate c \<Longrightarrow> c \<noteq> 0x22 \<and> c \<noteq> 0x5C \<and> \<not> c < 0x20"
  by (auto simp: is_leading_surrogate_def is_trailing_surrogate_def word_le_nat_alt word_less_nat_alt)

lemma lstep_plain:
  "c \<noteq> 0x22 \<Longrightarrow> c \<noteq> 0x5C \<Longrightarrow> \<not> c < 0x20 \<Longrightarrow>
   lrun (LStr acc) out (c # rest) = lrun (LStr (acc @ [c])) out rest"
  by simp

lemma lrun_quote_unit:
  "lrun (LStr acc) out (quote_unit c @ rest) = lrun (LStr (acc @ [c])) out rest"
  by (simp add: quote_unit_def lrun_UnicodeEscape)

lemma lrun_quote_body:
  "lrun (LStr acc) out (quote_body s @ rest) = lrun (LStr (acc @ s)) out rest"
proof (induction s arbitrary: acc rule: quote_body.induct)
  case 1
  show ?case by simp
next
  case (2 c)
  show ?case by (simp add: lrun_quote_unit)
next
  case (3 c d ds)
  show ?case
  proof (cases "is_leading_surrogate c \<and> is_trailing_surrogate d")
    case True
    then have "quote_body (c # d # ds) @ rest = c # d # quote_body ds @ rest"
      by simp
    then have "lrun (LStr acc) out (quote_body (c # d # ds) @ rest) =
               lrun (LStr acc) out (c # d # quote_body ds @ rest)"
      by (simp only:)
    also have "\<dots> = lrun (LStr (acc @ [c])) out (d # quote_body ds @ rest)"
      using True surrogate_plain [of c] by (intro lstep_plain) simp_all
    also have "\<dots> = lrun (LStr ((acc @ [c]) @ [d])) out (quote_body ds @ rest)"
      using True surrogate_plain [of d] by (intro lstep_plain) simp_all
    also have "\<dots> = lrun (LStr (((acc @ [c]) @ [d]) @ ds)) out rest"
      using True by (rule 3(1))
    finally show ?thesis by simp
  next
    case False
    then have "quote_body (c # d # ds) @ rest = quote_unit c @ quote_body (d # ds) @ rest"
      by auto
    then have "lrun (LStr acc) out (quote_body (c # d # ds) @ rest) =
               lrun (LStr acc) out (quote_unit c @ quote_body (d # ds) @ rest)"
      by (simp only:)
    also have "\<dots> = lrun (LStr (acc @ [c])) out (quote_body (d # ds) @ rest)"
      by (rule lrun_quote_unit)
    also have "\<dots> = lrun (LStr ((acc @ [c]) @ d # ds)) out rest"
      using False by (rule 3(2))
    finally show ?thesis by simp
  qed
qed

lemma lrun_QuoteJSONString:
  "lrun LStart out (QuoteJSONString s @ rest) = lrun LStart (out @ [TStr s]) rest"
  using lrun_quote_body [of "[]" out s "0x22 # rest"]
  by (simp add: QuoteJSONString_def lstart_def)


lemma ascii_punct:
  "ascii ''{'' = [0x7B]" "ascii ''}'' = [0x7D]" "ascii '','' = [0x2C]" "ascii '':'' = [0x3A]"
  by (simp_all add: ascii_def)

lemma lrun_punct:
  "lrun LStart out (0x7B # rest) = lrun LStart (out @ [TLBrace]) rest"
  "lrun LStart out (0x7D # rest) = lrun LStart (out @ [TRBrace]) rest"
  "lrun LStart out (0x2C # rest) = lrun LStart (out @ [TComma]) rest"
  "lrun LStart out (0x3A # rest) = lrun LStart (out @ [TColon]) rest"
  by (simp_all add: lstart_def)

lemma lex_AppConfig:
  "lex (JSON_stringify ops (AppConfig_object c)) =
   Some [TLBrace,
     TStr (ascii ''clientID''), TColon, TStr (clientID c), TComma,
     TStr (ascii ''apiUrl''), TColon, TStr (apiUrl c), TComma,
     TStr (ascii ''redirectUrl''), TColon, TStr (redirectUrl c), TComma,
     TStr (ascii ''authEndpoint''), TColon, TStr (authEndpoint c), TComma,
     TStr (ascii ''signUpUrl''), TColon, TStr (signUpUrl c), TComma,
     TStr (ascii ''signInUrl''), TColon, TStr (signInUrl c), TRBrace]"
  by (simp add: lex_def AppConfig_object_def ascii_punct lrun_punct lrun_QuoteJSONString
      del: lrun.simps(2))

lemma key_facts:
  "\<not> is_array_index (ascii ''clientID'')" "\<not> is_array_index (ascii ''apiUrl'')"
  "\<not> is_array_index (ascii ''redirectUrl'')" "\<not> is_array_index (ascii ''authEndpoint'')"
  "\<not> is_array_index (ascii ''signUpUrl'')" "\<not> is_array_index (ascii ''signInUrl'')"
  by (simp_all add: is_array_index_def is_digit_def ascii_def)

lemma key_neq:
  "ascii ''clientID'' \<noteq> ascii ''apiUrl''" "ascii ''clientID'' \<noteq> ascii ''redirectUrl''"
  "ascii ''clientID'' \<noteq> ascii ''authEndpoint''" "ascii ''clientID'' \<noteq> ascii ''signUpUrl''"
  "ascii ''clientID'' \<noteq> ascii ''signInUrl''" "ascii ''apiUrl'' \<noteq> ascii ''clientID''"
  "ascii ''apiUrl'' \<noteq> ascii ''redirectUrl''" "ascii ''apiUrl'' \<noteq> ascii ''authEndpoint''"
  "ascii ''apiUrl'' \<noteq> ascii ''signUpUrl''" "ascii ''apiUrl'' \<noteq> ascii ''signInUrl''"
  "ascii ''redirectUrl'' \<noteq> ascii ''clientID''" "ascii ''redirectUrl'' \<noteq> ascii ''apiUrl''"
  "ascii ''redirectUrl'' \<noteq> ascii ''authEndpoint''" "ascii ''redirectUrl'' \<noteq> ascii ''signUpUrl''"
  "ascii ''redirectUrl'' \<noteq> ascii ''signInUrl''" "ascii ''authEndpoint'' \<noteq> ascii ''clientID''"
  "ascii ''authEndpoint'' \<noteq> ascii ''apiUrl''" "ascii ''authEndpoint'' \<noteq> ascii ''redirectUrl''"
  "ascii ''authEndpoint'' \<noteq> ascii ''signUpUrl''" "ascii ''authEndpoint'' \<noteq> ascii ''signInUrl''"
  "ascii ''signUpUrl'' \<noteq> ascii ''clientID''" "ascii ''signUpUrl'' \<noteq> ascii ''apiUrl''"
  "ascii ''signUpUrl'' \<noteq> ascii ''redirectUrl''" "ascii ''signUpUrl'' \<noteq> ascii ''authEndpoint''"
  "ascii ''signUpUrl'' \<noteq> ascii ''signInUrl''" "ascii ''signInUrl'' \<noteq> ascii ''clientID''"
  "ascii ''signInUrl'' \<noteq> ascii ''apiUrl''" "ascii ''signInUrl'' \<noteq> ascii ''redirectUrl''"
  "ascii ''signInUrl'' \<noteq> ascii ''authEndpoint''" "ascii ''signInUrl'' \<noteq> ascii ''signUpUrl''"
  by (simp_all add: ascii_def)

lemma parse_AppConfig:
  "JSON_parse (JSON_stringify ops (AppConfig_object c)) = Some (AppConfig_object c)"
proof -
  have "prun ([], MVal) [TLBrace,
     TStr (ascii ''clientID''), TColon, TStr (clientID c), TComma,
     TStr (ascii ''apiUrl''), TColon, TStr (apiUrl c), TComma,
     TStr (ascii ''redirectUrl''), TColon, TStr (redirectUrl c), TComma,
     TStr (ascii ''authEndpoint''), TColon, TStr (authEndpoint c), TComma,
     TStr (ascii ''signUpUrl''), TColon, TStr (signUpUrl c), TComma,
     TStr (ascii ''signInUrl''), TColon, TStr (signInUrl c), TRBrace] =
     Some (AppConfig_object c)"
    by (simp add: AppConfig_object_def obj_set_def key_facts key_neq)
  then show ?thesis
    by (simp only: JSON_parse_def lex_AppConfig option.case)
qed


section \<open>Running the handlers\<close>

lemma fst_await [simp]:
  "fst (await m f) = fst m @ (case snd m of Inl e \<Rightarrow> [] | Inr x \<Rightarrow> fst (f x))"
  by (cases m) (auto simp: await_def split: sum.splits prod.splits)

lemma snd_await [simp]:
  "snd (await m f) = (case snd m of Inl e \<Rightarrow> Inl e | Inr x \<Rightarrow> snd (f x))"
  by (cases m) (auto simp: await_def split: sum.splits prod.splits)

lemma action_simps [simp]:
  "fst (attempt r) = []" "snd (attempt r) = r"
  "fst (resolve x) = []" "snd (resolve x) = Inr x"
  "fst (throw err) = []" "snd (throw err) = Inl err"
  "fst (getObject e b k) = [GetObject b k]" "snd (getObject e b k) = s3_getObject e b k"
  "fst (do_fetch e rq) = [Fetch rq]" "snd (do_fetch e rq) = fetch e rq"
  by (simp_all add: attempt_def resolve_def throw_def getObject_def do_fetch_def)

lemma fetches_append [simp]: "fetches (xs @ ys) = fetches xs @ fetches ys"
  by (induction xs rule: fetches.induct) simp_all

lemma fst_getAppConfig: "fst (getAppConfig e) = [GetObject (bucket_id e) configFilename]"
  by (auto simp: getAppConfig_def split: sum.splits option.splits)

lemma fst_resp_json [simp]: "fst (resp_json r) = []"
  by (simp add: resp_json_def split: option.splits)

lemma snd_resp_json:
  "snd (resp_json r) =
     (case JSON_parse (resp_text r) of
        None \<Rightarrow> Inl (FetchError (ascii ''invalid-json'')) | Some j \<Rightarrow> Inr j)"
  by (simp add: resp_json_def split: option.splits)

lemma snd_getAppConfig:
  "snd (getAppConfig e) =
     (case s3_getObject e (bucket_id e) configFilename of
        Inl err \<Rightarrow> Inl err
      | Inr None \<Rightarrow> Inl (Error (ascii ''Doh!''))
      | Inr (Some f) \<Rightarrow>
          (case Body f of
             None \<Rightarrow> Inl (Error (ascii ''Doh!''))
           | Some b \<Rightarrow>
               (case JSON_parse b of None \<Rightarrow> Inl SyntaxError | Some c \<Rightarrow> Inr c)))"
  by (simp add: getAppConfig_def split: sum.splits option.splits)

lemma get_property_total:
  "get_property v k = Inr p \<Longrightarrow> \<exists>p'. get_property v k' = Inr p'"
  by (cases v) (simp_all add: get_property_def)

lemma braces: "ascii ''{'' @ ascii ''}'' = ascii ''{}''"
  by (simp add: ascii_def)

lemma exchange_trace:
  assumes "snd (getAppConfig e) = Inr cfg"
    and "get_property cfg (ascii ''clientID'') = Inr p1"
    and "get_property cfg (ascii ''redirectUrl'') = Inr p2"
    and "get_property cfg (ascii ''authEndpoint'') = Inr p3"
  shows "fst (exchange e c) =
     [GetObject (bucket_id e) configFilename,
      Fetch \<lparr>req_url = template (numbers e) p3 @ ascii ''/oauth2/token'',
       req_method = ascii ''POST'',
       req_headers = [(ascii ''Content-Type'', ascii ''application/x-www-form-urlencoded'')],
       req_body =
         ascii ''grant_type=authorization_code'' @ ascii ''&'' @
         ascii ''client_id='' @ template (numbers e) p1 @ ascii ''&'' @
         ascii ''redirect_uri='' @ template (numbers e) p2 @ ascii ''&'' @
         ascii ''code='' @ c\<rparr>]"
  using assms
  by (simp add: exchange_def fst_getAppConfig Let_def split: sum.splits)

lemma exchange_result:
  assumes "snd (getAppConfig e) = Inr cfg"
    and "get_property cfg (ascii ''clientID'') = Inr p1"
    and "get_property cfg (ascii ''redirectUrl'') = Inr p2"
    and "get_property cfg (ascii ''authEndpoint'') = Inr p3"
    and "get_property cfg (ascii ''apiUrl'') = Inr p4"
    and "fetch e \<lparr>req_url = template (numbers e) p3 @ ascii ''/oauth2/token'',
       req_method = ascii ''POST'',
       req_headers = [(ascii ''Content-Type'', ascii ''application/x-www-form-urlencoded'')],
       req_body =
         ascii ''grant_type=authorization_code'' @ ascii ''&'' @
         ascii ''client_id='' @ template (numbers e) p1 @ ascii ''&'' @
         ascii ''redirect_uri='' @ template (numbers e) p2 @ ascii ''&'' @
         ascii ''code='' @ c\<rparr> = answer"
  shows "snd (exchange e c) =
     (case answer of
        Inl err \<Rightarrow> Inl err
      | Inr resp \<Rightarrow>
          (case JSON_parse (resp_text resp) of
             None \<Rightarrow> Inl (FetchError (ascii ''invalid-json''))
           | Some token \<Rightarrow>
               (case get_property token (ascii ''id_token'') of
                  Inl err \<Rightarrow> Inl err
                | Inr tk \<Rightarrow>
                    Inr \<lparr>statusCode = 302, body = ascii ''{}'',
                      headers =
                        [(ascii ''Set-Cookie'', ascii ''id='' @ template (numbers e) tk),
                         (ascii ''Location'',
                          template (numbers e) p4 @ ascii ''?id='' @
                          template (numbers e) tk)]\<rparr>)))"
  using assms
  by (simp add: exchange_def snd_resp_json Let_def braces
      split: sum.splits option.splits)

lemma fetch_issued:
  assumes "fetches (fst (exchange e c)) = [rq]"
  obtains cfg p1 p2 p3 p4 where "snd (getAppConfig e) = Inr cfg"
    and "get_property cfg (ascii ''clientID'') = Inr p1"
    and "get_property cfg (ascii ''redirectUrl'') = Inr p2"
    and "get_property cfg (ascii ''authEndpoint'') = Inr p3"
    and "get_property cfg (ascii ''apiUrl'') = Inr p4"
proof (cases "snd (getAppConfig e)")
  case (Inl err)
  with assms show ?thesis by (simp add: exchange_def fst_getAppConfig)
next
  case (Inr cfg)
  show ?thesis
  proof (cases "get_property cfg (ascii ''clientID'')")
    case (Inl err)
    with assms Inr show ?thesis by (simp add: exchange_def fst_getAppConfig)
  next
    case p1: (Inr p1)
    from get_property_total [OF p1] obtain p2 p3 p4
      where "get_property cfg (ascii ''redirectUrl'') = Inr p2"
        and "get_property cfg (ascii ''authEndpoint'') = Inr p3"
        and "get_property cfg (ascii ''apiUrl'') = Inr p4"
      by metis
    with Inr p1 that show ?thesis by blast
  qed
qed

lemma callback_with_code:
  assumes "queryStringParameters ev = Some q" and "q (ascii ''code'') = Some c" and "c \<noteq> []"
  shows "callback_handler e ev = exchange e c"
  using assms by (simp add: callback_handler_def)

lemma ascii_append: "ascii (a @ b) = ascii a @ ascii b"
  by (simp add: ascii_def)

lemma ascii_eq_Nil [simp]: "(ascii s = []) = (s = [])"
  by (simp add: ascii_def)

lemma get_property_AppConfig:
  "get_property (AppConfig_object c) (ascii ''clientID'') = Inr (Some (JString (clientID c)))"
  "get_property (AppConfig_object c) (ascii ''redirectUrl'') = Inr (Some (JString (redirectUrl c)))"
  "get_property (AppConfig_object c) (ascii ''authEndpoint'') = Inr (Some (JString (authEndpoint c)))"
  "get_property (AppConfig_object c) (ascii ''apiUrl'') = Inr (Some (JString (apiUrl c)))"
  by (simp_all add: get_property_def AppConfig_object_def key_neq)

lemma stringify_AppConfig_ops:
  "JSON_stringify ops (AppConfig_object c) = JSON_stringify ops' (AppConfig_object c)"
  by (simp add: AppConfig_object_def)

lemma config_handler_run:
  "config_handler e ev =
     ([GetObject (bucket_id e) configFilename],
      case snd (getAppConfig e) of
        Inl err \<Rightarrow> Inl err
      | Inr cfg \<Rightarrow> Inr \<lparr>statusCode = 200, body = JSON_stringify (numbers e) cfg, headers = []\<rparr>)"
  by (rule prod_eqI) (simp_all add: config_handler_def fst_getAppConfig split: sum.splits)

lemma getAppConfig_stored:
  assumes "s3_getObject e = store_getObject (putObject st (bucket_id e) configFilename b)"
  shows "snd (getAppConfig e) = (case JSON_parse b of None \<Rightarrow> Inl SyntaxError | Some c \<Rightarrow> Inr c)"
  by (simp add: snd_getAppConfig assms store_getObject_def putObject_def)

section \<open>The example deployment, evaluated\<close>

lemma example_env_fields [simp]:
  "s3_getObject (example_env st ans) = store_getObject st"
  "fetch (example_env st ans) = (\<lambda>rq. ans)"
  "numbers (example_env st ans) = plain_numbers"
  "bucket_id (example_env st ans) = bucket_name example_outputs"
  by (simp_all add: example_env_def)

lemma example_config:
  "resolved_config source_settings example_outputs =
     \<lparr>clientID = ascii ''client1'',
      redirectUrl = ascii ''https://api.nunciato.org/stage/callback/'',
      authEndpoint = ascii ''https://cnunciato-test.auth.us-east-1.amazoncognito.com'',
      apiUrl = ascii ''https://api.nunciato.org/stage/'',
      signUpUrl = ascii ''https://cnunciato-test.auth.us-east-1.amazoncognito.com/signup?client_id=client1&response_type=code&redirect_uri=https://api.nunciato.org/stage/callback/'',
      signInUrl = ascii ''https://cnunciato-test.auth.us-east-1.amazoncognito.com/login?client_id=client1&response_type=code&redirect_uri=https://api.nunciato.org/stage/callback/''\<rparr>"
  by (simp add: resolved_config_def assemble_def Let_def getAPIUrl_def useCustomDomain_def
      source_settings_def gatewayHostname_def example_outputs_def authDomain_def region_def
      ascii_append [symmetric])

lemma getAppConfig_published:
  "snd (getAppConfig (example_env published ans)) =
     Inr (AppConfig_object (resolved_config source_settings example_outputs))"
proof -
  have "s3_getObject (example_env published ans) =
        store_getObject (putObject Map.empty (bucket_id (example_env published ans))
          configFilename
          (JSON_stringify plain_numbers
             (AppConfig_object (resolved_config source_settings example_outputs))))"
    by (simp add: published_def bucketObject_def config_def del: JSON_stringify.simps)
  then show ?thesis
    by (simp only: getAppConfig_stored parse_AppConfig option.case)
qed

lemma parse_token_body:
  \<open>JSON_parse (ascii ''{"id_token":"tok123"}'') =
     Some (JObject [(ascii ''id_token'', JString (ascii ''tok123''))])\<close>
  by (simp add: JSON_parse_def lex_def ascii_def lstart_def obj_set_def is_array_index_def
      is_digit_def)

lemma parse_error_body:
  \<open>JSON_parse (ascii ''{"error":"invalid_grant"}'') =
     Some (JObject [(ascii ''error'', JString (ascii ''invalid_grant''))])\<close>
  by (simp add: JSON_parse_def lex_def ascii_def lstart_def obj_set_def is_array_index_def
      is_digit_def)

lemma parse_html_body: \<open>JSON_parse (ascii ''<html>Bad Gateway</html>'') = None\<close>
  by (simp add: JSON_parse_def lex_def ascii_def lstart_def is_digit_def)

lemma callback_event_code:
  "queryStringParameters (callback_event c) = Some [ascii ''code'' \<mapsto> c]"
  "[ascii ''code'' \<mapsto> c] (ascii ''code'') = Some c"
  by (simp_all add: callback_event_def)

lemma example_bucket: "bucket_name example_outputs = ascii ''bucket-0a1b2c3''"
  by (simp add: example_outputs_def)

lemma example_trace:
  "fst (exchange (example_env published ans) c) =
     [GetObject (ascii ''bucket-0a1b2c3'') (ascii ''config.json''),
      Fetch \<lparr>req_url = ascii ''https://cnunciato-test.auth.us-east-1.amazoncognito.com/oauth2/token'',
       req_method = ascii ''POST'',
       req_headers = [(ascii ''Content-Type'', ascii ''application/x-www-form-urlencoded'')],
       req_body = ascii ''grant_type=authorization_code&client_id=client1&redirect_uri=https://api.nunciato.org/stage/callback/&code='' @ c\<rparr>]"
  using exchange_trace [OF getAppConfig_published get_property_AppConfig(1,2,3), of ans c]
  by (simp add: example_config template_def example_bucket configFilename_def
      ascii_append [symmetric])


lemma example_result:
  assumes "JSON_parse b = Some token" and "get_property token (ascii ''id_token'') = Inr tk"
  shows "snd (exchange (example_env published (token_response b)) c) =
     Inr \<lparr>statusCode = 302, body = ascii ''{}'',
       headers =
         [(ascii ''Set-Cookie'', ascii ''id='' @ template plain_numbers tk),
          (ascii ''Location'',
           ascii ''https://api.nunciato.org/stage/?id='' @ template plain_numbers tk)]\<rparr>"
  using exchange_result [OF getAppConfig_published get_property_AppConfig(1,2,3,4),
      of "token_response b" c "token_response b"] assms
  by (simp add: example_config template_def token_response_def ascii_append [symmetric])

lemma get_no_id_token:
  "get_property (JObject [(ascii ''error'', JString (ascii ''invalid_grant''))])
     (ascii ''id_token'') = Inr None"
  by (simp add: get_property_def ascii_def)

text \<open>A string of printable ASCII without quotes and backslashes is quoted as it is, so the
  published document of the example can be written out.\<close>

lemma quote_unit_plain:
  "0x20 \<le> c \<Longrightarrow> c \<noteq> 0x22 \<Longrightarrow> c \<noteq> 0x5C \<Longrightarrow> c < 0xD800 \<Longrightarrow> quote_unit c = [c]"
  by (auto simp: quote_unit_def is_leading_surrogate_def is_trailing_surrogate_def
      word_le_nat_alt word_less_nat_alt)

lemma quote_body_plain:
  "list_all (\<lambda>c. 0x20 \<le> c \<and> c \<noteq> 0x22 \<and> c \<noteq> 0x5C \<and> c < 0xD800) s \<Longrightarrow> quote_body s = s"
proof (induction s rule: quote_body.induct)
  case 1
  show ?case by simp
next
  case (2 c)
  then show ?case by (simp add: quote_unit_plain)
next
  case (3 c d ds)
  then have "\<not> is_leading_surrogate c"
    by (auto simp: is_leading_surrogate_def word_le_nat_alt word_less_nat_alt)
  with 3 show ?case by (simp add: quote_unit_plain)
qed

lemma list_all_ascii:
  "list_all P (ascii s) = list_all (\<lambda>c. P (of_char c)) s"
  by (simp add: ascii_def list_all_iff)

lemma quote_ascii:
  "list_all (\<lambda>c. 0x20 \<le> (of_char c :: cu) \<and> (of_char c :: cu) \<noteq> 0x22 \<and>
      (of_char c :: cu) \<noteq> 0x5C \<and> (of_char c :: cu) < 0xD800) s \<Longrightarrow>
   QuoteJSONString (ascii s) = ascii (CHR 0x22 # s @ [CHR 0x22])"
  using quote_body_plain [of "ascii s"]
  by (simp add: QuoteJSONString_def list_all_ascii) (simp add: ascii_def)

lemma published_document:
  \<open>config plain_numbers source_settings example_outputs =
   ascii ''{"clientID":"client1","apiUrl":"https://api.nunciato.org/stage/","redirectUrl":"https://api.nunciato.org/stage/callback/","authEndpoint":"https://cnunciato-test.auth.us-east-1.amazoncognito.com","signUpUrl":"https://cnunciato-test.auth.us-east-1.amazoncognito.com/signup?client_id=client1&response_type=code&redirect_uri=https://api.nunciato.org/stage/callback/","signInUrl":"https://cnunciato-test.auth.us-east-1.amazoncognito.com/login?client_id=client1&response_type=code&redirect_uri=https://api.nunciato.org/stage/callback/"}''\<close>
  by (simp add: config_def example_config AppConfig_object_def quote_ascii
      ascii_append [symmetric])

section \<open>Provisioning: the derived URLs and the assembled configuration\<close>

text \<open>C8. In every configuration that Configuration Resolution assembles, \<open>signUpUrl\<close> is
  \<open>authEndpoint\<close> followed by \<open>/signup?\<close> and the query string, and \<open>signInUrl\<close> is
  \<open>authEndpoint\<close> followed by \<open>/login?\<close> and the same query string; the query string has
  the parameters \<open>client_id\<close> (the configuration's \<open>clientID\<close>), \<open>response_type=code\<close>
  and \<open>redirect_uri\<close> (the configuration's \<open>redirectUrl\<close>) in this order, joined by
  \<open>&\<close>. The two fields are the client identifier and the callback URL that were
  passed in, unchanged.\<close>

theorem sign_urls:
  "signUpUrl (assemble cid api cb pre) =
     authEndpoint (assemble cid api cb pre) @ ascii ''/signup?'' @
     join (ascii ''&'')
       [ascii ''client_id='' @ clientID (assemble cid api cb pre),
        ascii ''response_type=code'',
        ascii ''redirect_uri='' @ redirectUrl (assemble cid api cb pre)] \<and>
   signInUrl (assemble cid api cb pre) =
     authEndpoint (assemble cid api cb pre) @ ascii ''/login?'' @
     join (ascii ''&'')
       [ascii ''client_id='' @ clientID (assemble cid api cb pre),
        ascii ''response_type=code'',
        ascii ''redirect_uri='' @ redirectUrl (assemble cid api cb pre)] \<and>
   clientID (assemble cid api cb pre) = cid \<and>
   redirectUrl (assemble cid api cb pre) = cb \<and>
   authEndpoint (assemble cid api cb pre) =
     ascii ''https://'' @ pre @ ascii ''.auth.'' @ region @ ascii ''.amazoncognito.com''"
  by (simp add: assemble_def Let_def) (simp add: ascii_def)

text \<open>The sign-up and sign-in URLs of the example deployment.\<close>

theorem sign_urls_witness:
  "signUpUrl (resolved_config source_settings example_outputs) =
     ascii ''https://cnunciato-test.auth.us-east-1.amazoncognito.com/signup?client_id=client1&response_type=code&redirect_uri=https://api.nunciato.org/stage/callback/'' \<and>
   signInUrl (resolved_config source_settings example_outputs) =
     ascii ''https://cnunciato-test.auth.us-east-1.amazoncognito.com/login?client_id=client1&response_type=code&redirect_uri=https://api.nunciato.org/stage/callback/''"
  using sign_urls [of "client_id example_outputs" "getAPIUrl source_settings example_outputs None"
      "getAPIUrl source_settings example_outputs (Some (ascii ''callback''))"
      "domain_domain example_outputs"]
  by (simp add: example_config resolved_config_def [symmetric] ascii_append [symmetric])

text \<open>C9. Whether the custom domain is in use or not, the \<open>redirectUrl\<close> of the
  configuration that is published is the one callback URL that the client registration
  lists: the registration has exactly one callback URL, it is the \<open>redirectUrl\<close> of the
  assembled configuration, and the published document parses to an object whose
  \<open>redirectUrl\<close> property is that string.\<close>

theorem redirect_is_registered_callback:
  "callbackUrls (client s out) = [redirectUrl (resolved_config s out)] \<and>
   JSON_parse (config ops s out) = Some (AppConfig_object (resolved_config s out)) \<and>
   get_property (AppConfig_object (resolved_config s out)) (ascii ''redirectUrl'') =
     Inr (Some (JString (redirectUrl (resolved_config s out))))"
proof -
  have "callbackUrls (client s out) = [redirectUrl (resolved_config s out)]"
    by (simp add: client_def resolved_config_def assemble_def Let_def)
  moreover have "JSON_parse (config ops s out) = Some (AppConfig_object (resolved_config s out))"
    by (simp only: config_def parse_AppConfig)
  ultimately show ?thesis
    by (simp only: get_property_AppConfig simp_thms)
qed

text \<open>The registered callback URL of the example deployment, with the custom domain and
  without it.\<close>

theorem redirect_is_registered_callback_witness:
  "callbackUrls (client source_settings example_outputs) =
     [ascii ''https://api.nunciato.org/stage/callback/''] \<and>
   redirectUrl (resolved_config source_settings example_outputs) =
     ascii ''https://api.nunciato.org/stage/callback/'' \<and>
   callbackUrls (client \<lparr>gatewayDomain = [], basePath = []\<rparr> example_outputs) =
     [redirectUrl (resolved_config \<lparr>gatewayDomain = [], basePath = []\<rparr> example_outputs)]"
  using redirect_is_registered_callback [of source_settings example_outputs plain_numbers]
    redirect_is_registered_callback [of "\<lparr>gatewayDomain = [], basePath = []\<rparr>" example_outputs
      plain_numbers]
  by (simp add: example_config)

text \<open>C10. While the custom domain is in use, every derived URL ends with a slash: without
  a sub-path it is \<open>https://{hostname}/{basePath}/\<close>, and with a sub-path \<open>p\<close> (a string
  that is not empty; an empty one counts as none) it is
  \<open>https://{hostname}/{basePath}/{p}/\<close>.\<close>

theorem custom_domain_trailing_slash:
  assumes "useCustomDomain s"
  shows "getAPIUrl s out None =
           ascii ''https://'' @ gatewayHostname s @ ascii ''/'' @ basePath s @ ascii ''/'' \<and>
         (p \<noteq> [] \<longrightarrow> getAPIUrl s out (Some p) =
           ascii ''https://'' @ gatewayHostname s @ ascii ''/'' @ basePath s @ ascii ''/'' @
           p @ ascii ''/'') \<and>
         getAPIUrl s out path \<noteq> [] \<and> last (getAPIUrl s out path) = 0x2F"
  using assms by (auto simp: getAPIUrl_def ascii_def split: option.splits)

text \<open>With the constants of the source the custom domain is in use, and the base, callback
  and logout URLs end with a slash.\<close>

theorem custom_domain_trailing_slash_witness:
  "useCustomDomain source_settings \<and>
   getAPIUrl source_settings example_outputs None = ascii ''https://api.nunciato.org/stage/'' \<and>
   getAPIUrl source_settings example_outputs (Some (ascii ''callback'')) =
     ascii ''https://api.nunciato.org/stage/callback/'' \<and>
   last (getAPIUrl source_settings example_outputs (Some (ascii ''logout''))) = 0x2F"
proof -
  have h: "useCustomDomain source_settings"
    by (simp add: useCustomDomain_def source_settings_def gatewayHostname_def)
  have p: "ascii ''callback'' \<noteq> []" by simp
  show ?thesis
    using h p custom_domain_trailing_slash [OF h, of example_outputs "ascii ''callback''"
        "Some (ascii ''logout'')"]
    by (simp add: source_settings_def gatewayHostname_def ascii_append [symmetric])
qed

text \<open>C2. The derived URL for a sub-path should be the base URL followed by the path of that
  sub-path, whichever way the custom-domain switch is set. Without a custom domain the
  code returns the gateway's generated URL and drops the sub-path: the callback URL, the
  logout URL and the base URL are then the same string.\<close>

theorem generated_url_drops_path:
  "\<not> useCustomDomain \<lparr>gatewayDomain = [], basePath = ascii ''stage''\<rparr> \<and>
   getAPIUrl \<lparr>gatewayDomain = [], basePath = ascii ''stage''\<rparr> example_outputs
     (Some (ascii ''callback'')) = api_url example_outputs \<and>
   getAPIUrl \<lparr>gatewayDomain = [], basePath = ascii ''stage''\<rparr> example_outputs
     (Some (ascii ''logout'')) = api_url example_outputs \<and>
   getAPIUrl \<lparr>gatewayDomain = [], basePath = ascii ''stage''\<rparr> example_outputs None =
     api_url example_outputs \<and>
   api_url example_outputs = ascii ''https://abc123.execute-api.us-east-1.amazonaws.com/stage/''"
  by (simp add: useCustomDomain_def getAPIUrl_def example_outputs_def)

section \<open>The callback handler\<close>

text \<open>C3. When the request has no query string parameters, or has some but no \<open>code\<close>
  among them (or an empty \<open>code\<close>), the callback handler answers 400 with the message
  \<open>Bad request. Code property was missing.\<close> and makes no outbound call at all: the
  token-exchange POST is not issued.\<close>

theorem callback_missing_code:
  assumes "queryStringParameters ev = None \<or>
           (\<exists>q. queryStringParameters ev = Some q \<and>
                (q (ascii ''code'') = None \<or> q (ascii ''code'') = Some []))"
  shows "callback_handler e ev = ([], Inr bad_request) \<and>
         statusCode bad_request = 400 \<and>
         body bad_request = ascii ''Bad request. Code property was missing.'' \<and>
         fetches (fst (callback_handler e ev)) = []"
  using assms by (auto simp: callback_handler_def resolve_def bad_request_def)

text \<open>A request without parameters and a request with a \<open>state\<close> parameter only, against
  the provisioned example: 400 and an empty trace.\<close>

theorem callback_missing_code_witness:
  "callback_handler (example_env published unreachable) no_event = ([], Inr bad_request) \<and>
   callback_handler (example_env published unreachable)
     \<lparr>queryStringParameters = Some [ascii ''state'' \<mapsto> ascii ''xyz'']\<rparr> =
     ([], Inr bad_request) \<and>
   statusCode bad_request = 400"
proof -
  have a: "queryStringParameters no_event = None \<or>
           (\<exists>q. queryStringParameters no_event = Some q \<and>
                (q (ascii ''code'') = None \<or> q (ascii ''code'') = Some []))"
    by (simp add: no_event_def)
  have "[ascii ''state'' \<mapsto> ascii ''xyz''] (ascii ''code'') = None"
    by (simp add: ascii_def)
  then have b: "queryStringParameters
             \<lparr>queryStringParameters = Some [ascii ''state'' \<mapsto> ascii ''xyz'']\<rparr> = None \<or>
           (\<exists>q. queryStringParameters
                  \<lparr>queryStringParameters = Some [ascii ''state'' \<mapsto> ascii ''xyz'']\<rparr> = Some q \<and>
                (q (ascii ''code'') = None \<or> q (ascii ''code'') = Some []))"
    by simp
  show ?thesis
    using callback_missing_code [OF a, of "example_env published unreachable"]
      callback_missing_code [OF b, of "example_env published unreachable"]
    by (simp only: simp_thms)
qed

text \<open>C5. With a \<open>code\<close> parameter \<open>c\<close> (one that passes the handler's guard: present and
  not empty) and a loaded configuration (one whose \<open>clientID\<close>, \<open>redirectUrl\<close> and \<open>authEndpoint\<close> are strings), the callback handler issues exactly
  one outbound request, whatever the answer to it is: a POST to \<open>authEndpoint\<close> followed by
  \<open>/oauth2/token\<close>, with content type \<open>application/x-www-form-urlencoded\<close> and the body
  \<open>grant_type=authorization_code\<close>, \<open>client_id=\<close> and the \<open>clientID\<close>, \<open>redirect_uri=\<close> and
  the \<open>redirectUrl\<close>, \<open>code=\<close> and \<open>c\<close>, joined by \<open>&\<close> in this order. There is no second
  request, so no retry.\<close>

theorem callback_single_post:
  assumes "queryStringParameters ev = Some q" and "q (ascii ''code'') = Some c" and "c \<noteq> []"
    and "snd (getAppConfig e) = Inr cfg"
    and "get_property cfg (ascii ''clientID'') = Inr (Some (JString cid))"
    and "get_property cfg (ascii ''redirectUrl'') = Inr (Some (JString ru))"
    and "get_property cfg (ascii ''authEndpoint'') = Inr (Some (JString ae))"
  shows "fetches (fst (callback_handler e ev)) =
     [\<lparr>req_url = ae @ ascii ''/oauth2/token'',
       req_method = ascii ''POST'',
       req_headers = [(ascii ''Content-Type'', ascii ''application/x-www-form-urlencoded'')],
       req_body =
         ascii ''grant_type=authorization_code'' @ ascii ''&'' @
         ascii ''client_id='' @ cid @ ascii ''&'' @
         ascii ''redirect_uri='' @ ru @ ascii ''&'' @
         ascii ''code='' @ c\<rparr>]"
  using assms
  by (simp add: callback_handler_def exchange_def fst_getAppConfig template_def Let_def
      split: sum.splits)

text \<open>The one request of the example deployment for the code \<open>abc\<close>, when the identity
  provider cannot be reached.\<close>

theorem callback_single_post_witness:
  "fetches (fst (callback_handler (example_env published unreachable)
                   (callback_event (ascii ''abc'')))) =
     [\<lparr>req_url =
         ascii ''https://cnunciato-test.auth.us-east-1.amazoncognito.com/oauth2/token'',
       req_method = ascii ''POST'',
       req_headers = [(ascii ''Content-Type'', ascii ''application/x-www-form-urlencoded'')],
       req_body =
         ascii ''grant_type=authorization_code&client_id=client1&redirect_uri=https://api.nunciato.org/stage/callback/&code=abc''\<rparr>]"
proof -
  have c: "ascii ''abc'' \<noteq> []" by simp
  show ?thesis
    using callback_single_post [OF callback_event_code c getAppConfig_published
        get_property_AppConfig(1,2,3), of unreachable]
    by (simp add: example_config ascii_append [symmetric])
qed

text \<open>C4. With a \<open>code\<close> parameter (present and not empty), a loaded configuration whose
  \<open>apiUrl\<close> is the string \<open>a\<close>, and an answer to the handler's POST whose body parses as JSON with the string \<open>t\<close>
  as its \<open>id_token\<close>, the callback handler answers 302 with a \<open>Set-Cookie\<close> header
  \<open>id=\<close> followed by \<open>t\<close> and a \<open>Location\<close> header \<open>a\<close> followed by \<open>?id=\<close> and \<open>t\<close>.\<close>

theorem callback_success:
  assumes "queryStringParameters ev = Some q" and "q (ascii ''code'') = Some c" and "c \<noteq> []"
    and "snd (getAppConfig e) = Inr cfg"
    and "get_property cfg (ascii ''apiUrl'') = Inr (Some (JString a))"
    and "fetches (fst (callback_handler e ev)) = [rq]"
    and "fetch e rq = Inr resp"
    and "JSON_parse (resp_text resp) = Some token"
    and "get_property token (ascii ''id_token'') = Inr (Some (JString t))"
  shows "snd (callback_handler e ev) =
     Inr \<lparr>statusCode = 302, body = ascii ''{}'',
          headers =
            [(ascii ''Set-Cookie'', ascii ''id='' @ t),
             (ascii ''Location'', a @ ascii ''?id='' @ t)]\<rparr>"
proof -
  have run: "callback_handler e ev = exchange e c"
    using assms(1-3) by (rule callback_with_code)
  obtain p1 where p1: "get_property cfg (ascii ''clientID'') = Inr p1"
    using assms(5) get_property_total by blast
  obtain p2 where p2: "get_property cfg (ascii ''redirectUrl'') = Inr p2"
    using assms(5) get_property_total by blast
  obtain p3 where p3: "get_property cfg (ascii ''authEndpoint'') = Inr p3"
    using assms(5) get_property_total by blast
  note trace = exchange_trace [OF assms(4) p1 p2 p3, of c]
  have rq: "fetch e \<lparr>req_url = template (numbers e) p3 @ ascii ''/oauth2/token'',
       req_method = ascii ''POST'',
       req_headers = [(ascii ''Content-Type'', ascii ''application/x-www-form-urlencoded'')],
       req_body =
         ascii ''grant_type=authorization_code'' @ ascii ''&'' @
         ascii ''client_id='' @ template (numbers e) p1 @ ascii ''&'' @
         ascii ''redirect_uri='' @ template (numbers e) p2 @ ascii ''&'' @
         ascii ''code='' @ c\<rparr> = Inr resp"
    using assms(6,7) unfolding run trace by simp
  show ?thesis
    unfolding run exchange_result [OF assms(4) p1 p2 p3 assms(5) rq]
    using assms(8,9) by (simp add: template_def)
qed

text \<open>The example deployment, with the identity provider answering
  \<open>{"id_token":"tok123"}\<close> to the code \<open>abc\<close>.\<close>

theorem callback_success_witness:
  \<open>JSON_parse (ascii ''{"id_token":"tok123"}'') =
     Some (JObject [(ascii ''id_token'', JString (ascii ''tok123''))]) \<and>
   snd (callback_handler
          (example_env published (token_response (ascii ''{"id_token":"tok123"}'')))
          (callback_event (ascii ''abc''))) =
     Inr \<lparr>statusCode = 302, body = ascii ''{}'',
          headers =
            [(ascii ''Set-Cookie'', ascii ''id=tok123''),
             (ascii ''Location'', ascii ''https://api.nunciato.org/stage/?id=tok123'')]\<rparr>\<close>
proof -
  let ?e = \<open>example_env published (token_response (ascii ''{"id_token":"tok123"}''))\<close>
  let ?resp = \<open>\<lparr>resp_status = 200, resp_text = ascii ''{"id_token":"tok123"}''\<rparr>\<close>
  have c: "ascii ''abc'' \<noteq> []" by simp
  have run: "callback_handler ?e (callback_event (ascii ''abc'')) = exchange ?e (ascii ''abc'')"
    by (rule callback_with_code [OF callback_event_code c])
  have tr: "fetches (fst (callback_handler ?e (callback_event (ascii ''abc'')))) =
     [\<lparr>req_url =
         ascii ''https://cnunciato-test.auth.us-east-1.amazoncognito.com/oauth2/token'',
       req_method = ascii ''POST'',
       req_headers = [(ascii ''Content-Type'', ascii ''application/x-www-form-urlencoded'')],
       req_body =
         ascii ''grant_type=authorization_code&client_id=client1&redirect_uri=https://api.nunciato.org/stage/callback/&code='' @
         ascii ''abc''\<rparr>]"
    by (simp only: run example_trace fetches.simps)
  have f: "fetch ?e
     \<lparr>req_url =
         ascii ''https://cnunciato-test.auth.us-east-1.amazoncognito.com/oauth2/token'',
       req_method = ascii ''POST'',
       req_headers = [(ascii ''Content-Type'', ascii ''application/x-www-form-urlencoded'')],
       req_body =
         ascii ''grant_type=authorization_code&client_id=client1&redirect_uri=https://api.nunciato.org/stage/callback/&code='' @
         ascii ''abc''\<rparr> = Inr ?resp"
    by (simp add: token_response_def)
  have pr: "JSON_parse (resp_text ?resp) =
     Some (JObject [(ascii ''id_token'', JString (ascii ''tok123''))])"
    by (simp add: parse_token_body)
  have tk: "get_property (JObject [(ascii ''id_token'', JString (ascii ''tok123''))])
     (ascii ''id_token'') = Inr (Some (JString (ascii ''tok123'')))"
    by (simp add: get_property_def)
  show ?thesis
    using callback_success [OF callback_event_code c getAppConfig_published
        get_property_AppConfig(4) tr f pr tk]
    by (simp add: example_config parse_token_body ascii_append [symmetric])
qed

text \<open>C1. With a \<open>code\<close> parameter (present and not empty), when the answer to the
  handler's POST has a body that cannot be parsed as JSON, the callback handler fails with an error (the one \<open>resp.json()\<close>
  rejects with); the gateway surfaces it as a 5xx response, and that response has no
  \<open>Set-Cookie\<close> and no \<open>Location\<close> header. The handler does not look for \<open>id_token\<close> in a
  body that parses.\<close>

theorem callback_unparsable_token:
  assumes "queryStringParameters ev = Some q" and "q (ascii ''code'') = Some c" and "c \<noteq> []"
    and "fetches (fst (callback_handler e ev)) = [rq]"
    and "fetch e rq = Inr resp"
    and "JSON_parse (resp_text resp) = None"
  shows "snd (callback_handler e ev) = Inl (FetchError (ascii ''invalid-json'')) \<and>
         500 \<le> statusCode (surfaced (callback_handler e ev)) \<and>
         statusCode (surfaced (callback_handler e ev)) < 600 \<and>
         headers (surfaced (callback_handler e ev)) = []"
proof -
  have run: "callback_handler e ev = exchange e c"
    using assms(1-3) by (rule callback_with_code)
  from assms(4) obtain cfg p1 p2 p3 p4 where cfg: "snd (getAppConfig e) = Inr cfg"
    and p1: "get_property cfg (ascii ''clientID'') = Inr p1"
    and p2: "get_property cfg (ascii ''redirectUrl'') = Inr p2"
    and p3: "get_property cfg (ascii ''authEndpoint'') = Inr p3"
    and p4: "get_property cfg (ascii ''apiUrl'') = Inr p4"
    unfolding run by (rule fetch_issued)
  note trace = exchange_trace [OF cfg p1 p2 p3, of c]
  have rq: "fetch e \<lparr>req_url = template (numbers e) p3 @ ascii ''/oauth2/token'',
       req_method = ascii ''POST'',
       req_headers = [(ascii ''Content-Type'', ascii ''application/x-www-form-urlencoded'')],
       req_body =
         ascii ''grant_type=authorization_code'' @ ascii ''&'' @
         ascii ''client_id='' @ template (numbers e) p1 @ ascii ''&'' @
         ascii ''redirect_uri='' @ template (numbers e) p2 @ ascii ''&'' @
         ascii ''code='' @ c\<rparr> = Inr resp"
    using assms(4,5) unfolding run trace by simp
  have "snd (callback_handler e ev) = Inl (FetchError (ascii ''invalid-json''))"
    unfolding run exchange_result [OF cfg p1 p2 p3 p4 rq]
    using assms(6) by simp
  then show ?thesis by (simp add: surfaced_def)
qed

text \<open>The example deployment, with the identity provider answering with a page of HTML.\<close>

theorem callback_unparsable_token_witness:
  \<open>JSON_parse (ascii ''<html>Bad Gateway</html>'') = None \<and>
   snd (callback_handler
          (example_env published (token_response (ascii ''<html>Bad Gateway</html>'')))
          (callback_event (ascii ''abc''))) = Inl (FetchError (ascii ''invalid-json'')) \<and>
   statusCode (surfaced (callback_handler
          (example_env published (token_response (ascii ''<html>Bad Gateway</html>'')))
          (callback_event (ascii ''abc'')))) = 502 \<and>
   headers (surfaced (callback_handler
          (example_env published (token_response (ascii ''<html>Bad Gateway</html>'')))
          (callback_event (ascii ''abc'')))) = []\<close>
proof -
  let ?e = \<open>example_env published (token_response (ascii ''<html>Bad Gateway</html>''))\<close>
  let ?resp = \<open>\<lparr>resp_status = 200, resp_text = ascii ''<html>Bad Gateway</html>''\<rparr>\<close>
  have c: "ascii ''abc'' \<noteq> []" by simp
  have run: "callback_handler ?e (callback_event (ascii ''abc'')) = exchange ?e (ascii ''abc'')"
    by (rule callback_with_code [OF callback_event_code c])
  have tr: "fetches (fst (callback_handler ?e (callback_event (ascii ''abc'')))) =
     [\<lparr>req_url =
         ascii ''https://cnunciato-test.auth.us-east-1.amazoncognito.com/oauth2/token'',
       req_method = ascii ''POST'',
       req_headers = [(ascii ''Content-Type'', ascii ''application/x-www-form-urlencoded'')],
       req_body =
         ascii ''grant_type=authorization_code&client_id=client1&redirect_uri=https://api.nunciato.org/stage/callback/&code='' @
         ascii ''abc''\<rparr>]"
    by (simp only: run example_trace fetches.simps)
  have f: "fetch ?e
     \<lparr>req_url =
         ascii ''https://cnunciato-test.auth.us-east-1.amazoncognito.com/oauth2/token'',
       req_method = ascii ''POST'',
       req_headers = [(ascii ''Content-Type'', ascii ''application/x-www-form-urlencoded'')],
       req_body =
         ascii ''grant_type=authorization_code&client_id=client1&redirect_uri=https://api.nunciato.org/stage/callback/&code='' @
         ascii ''abc''\<rparr> = Inr ?resp"
    by (simp add: token_response_def)
  have pr: "JSON_parse (resp_text ?resp) = None"
    by (simp add: parse_html_body)
  show ?thesis
    using callback_unparsable_token [OF callback_event_code c tr f pr]
    by (simp add: parse_html_body surfaced_def)
qed

text \<open>Against C1 as it was stated: the identity provider answers an exchange it refuses
  with \<open>{"error":"invalid_grant"}\<close>, which parses and has no \<open>id_token\<close>; the handler
  answers 302 all the same, with the cookie \<open>id=undefined\<close> and a redirect to the API.\<close>

theorem callback_without_id_token_redirects:
  \<open>JSON_parse (ascii ''{"error":"invalid_grant"}'') =
     Some (JObject [(ascii ''error'', JString (ascii ''invalid_grant''))]) \<and>
   get_property (JObject [(ascii ''error'', JString (ascii ''invalid_grant''))])
     (ascii ''id_token'') = Inr None \<and>
   snd (callback_handler
          (example_env published (token_response (ascii ''{"error":"invalid_grant"}'')))
          (callback_event (ascii ''abc''))) =
     Inr \<lparr>statusCode = 302, body = ascii ''{}'',
          headers =
            [(ascii ''Set-Cookie'', ascii ''id=undefined''),
             (ascii ''Location'', ascii ''https://api.nunciato.org/stage/?id=undefined'')]\<rparr>\<close>
proof -
  have \<open>callback_handler
          (example_env published (token_response (ascii ''{"error":"invalid_grant"}'')))
          (callback_event (ascii ''abc'')) =
        exchange (example_env published (token_response (ascii ''{"error":"invalid_grant"}'')))
          (ascii ''abc'')\<close>
    by (rule callback_with_code [OF callback_event_code]) simp
  then show ?thesis
    by (simp add: example_result [OF parse_error_body get_no_id_token] parse_error_body
        get_no_id_token template_def ascii_append [symmetric])
qed


section \<open>The config-fetch handler\<close>

text \<open>C7. The config-fetch handler reads the object at the well-known key. When the object
  is there, has a body and the body parses, the handler answers 200 with the parsed
  configuration serialized as its body. When the read is rejected (the object is absent),
  gives nothing, gives an object without a body, or the body does not parse, the handler
  fails with an error, which the gateway surfaces as a 5xx response. Any response the
  handler itself returns is the 200 response of a stored object that parsed: there is no
  default and no partly built configuration.\<close>

theorem config_handler_contract:
  "(s3_getObject e (bucket_id e) configFilename = Inr (Some f) \<and> Body f = Some b \<and>
    JSON_parse b = Some cfg \<longrightarrow>
      snd (config_handler e ev) =
        Inr \<lparr>statusCode = 200, body = JSON_stringify (numbers e) cfg, headers = []\<rparr>) \<and>
   (s3_getObject e (bucket_id e) configFilename = Inl err \<longrightarrow>
      snd (config_handler e ev) = Inl err) \<and>
   (s3_getObject e (bucket_id e) configFilename = Inr None \<longrightarrow>
      snd (config_handler e ev) = Inl (Error (ascii ''Doh!''))) \<and>
   (s3_getObject e (bucket_id e) configFilename = Inr (Some f) \<and> Body f = None \<longrightarrow>
      snd (config_handler e ev) = Inl (Error (ascii ''Doh!''))) \<and>
   (s3_getObject e (bucket_id e) configFilename = Inr (Some f) \<and> Body f = Some b \<and>
    JSON_parse b = None \<longrightarrow>
      snd (config_handler e ev) = Inl SyntaxError) \<and>
   (snd (config_handler e ev) = Inl err' \<longrightarrow>
      500 \<le> statusCode (surfaced (config_handler e ev)) \<and>
      statusCode (surfaced (config_handler e ev)) < 600) \<and>
   (snd (config_handler e ev) = Inr r \<longrightarrow>
      (\<exists>f' b' cfg'. s3_getObject e (bucket_id e) configFilename = Inr (Some f') \<and>
         Body f' = Some b' \<and> JSON_parse b' = Some cfg' \<and>
         r = \<lparr>statusCode = 200, body = JSON_stringify (numbers e) cfg', headers = []\<rparr>))"
proof -
  have "snd (config_handler e ev) = Inr r \<longrightarrow>
      (\<exists>f' b' cfg'. s3_getObject e (bucket_id e) configFilename = Inr (Some f') \<and>
         Body f' = Some b' \<and> JSON_parse b' = Some cfg' \<and>
         r = \<lparr>statusCode = 200, body = JSON_stringify (numbers e) cfg', headers = []\<rparr>)"
    by (auto simp: config_handler_run snd_getAppConfig split: sum.splits option.splits)
  then show ?thesis
    by (auto simp: config_handler_run snd_getAppConfig surfaced_def)
qed

text \<open>The example deployment after provisioning answers 200 with the published document;
  over an empty store the handler fails with the rejection of the read, surfaced as 502.\<close>

theorem config_handler_contract_witness:
  "snd (config_handler (example_env published unreachable) no_event) =
     Inr \<lparr>statusCode = 200,
          body = JSON_stringify plain_numbers
                   (AppConfig_object (resolved_config source_settings example_outputs)),
          headers = []\<rparr> \<and>
   snd (config_handler (example_env Map.empty unreachable) no_event) =
     Inl (S3Error (ascii ''NoSuchKey'')) \<and>
   statusCode (surfaced (config_handler (example_env Map.empty unreachable) no_event)) = 502"
proof -
  let ?doc = "JSON_stringify plain_numbers
                (AppConfig_object (resolved_config source_settings example_outputs))"
  have a: "s3_getObject (example_env published unreachable)
             (bucket_id (example_env published unreachable)) configFilename =
           Inr (Some \<lparr>Body = Some ?doc\<rparr>)"
    by (simp add: published_def bucketObject_def config_def store_getObject_def putObject_def
        del: JSON_stringify.simps)
  have b: "Body \<lparr>Body = Some ?doc\<rparr> = Some ?doc" by simp
  have c: "JSON_parse ?doc =
           Some (AppConfig_object (resolved_config source_settings example_outputs))"
    by (rule parse_AppConfig)
  have d: "s3_getObject (example_env Map.empty unreachable)
             (bucket_id (example_env Map.empty unreachable)) configFilename =
           Inl (S3Error (ascii ''NoSuchKey''))"
    by (simp add: store_getObject_def)
  have ok: "snd (config_handler (example_env published unreachable) no_event) =
     Inr \<lparr>statusCode = 200, body = ?doc, headers = []\<rparr>"
    using config_handler_contract [of "example_env published unreachable"
      "\<lparr>Body = Some ?doc\<rparr>" ?doc
      "AppConfig_object (resolved_config source_settings example_outputs)" no_event,
      THEN conjunct1, rule_format, OF conjI [OF a conjI [OF b c]]]
    by (simp only: example_env_fields)
  have ko: "snd (config_handler (example_env Map.empty unreachable) no_event) =
     Inl (S3Error (ascii ''NoSuchKey''))"
    by (rule config_handler_contract [of "example_env Map.empty unreachable" _ _ _ no_event
      "S3Error (ascii ''NoSuchKey'')", THEN conjunct2, THEN conjunct1, rule_format, OF d])
  then have "statusCode (surfaced (config_handler (example_env Map.empty unreachable) no_event))
     = 502"
    by (simp add: surfaced_def)
  with ok ko show ?thesis by (simp only: simp_thms)
qed

text \<open>C6. For every configuration \<open>c\<close>, reading its serialization back gives it byte for
  byte: when the store holds the serialization of \<open>c\<close> under the well-known key, the
  config-fetch handler answers 200 with exactly that string as its body, because parsing
  the string and serializing the result again gives the string. In particular, after
  provisioning has written its document, the handler's body is that document. Over a
  store into which nothing has been written the handler fails (the read is rejected) and
  gives no body.\<close>

theorem config_roundtrip:
  "(s3_getObject e =
      store_getObject
        (putObject st (bucket_id e) configFilename (JSON_stringify ops (AppConfig_object c))) \<longrightarrow>
    snd (config_handler e ev) =
      Inr \<lparr>statusCode = 200, body = JSON_stringify ops (AppConfig_object c), headers = []\<rparr>) \<and>
   map_option (JSON_stringify ops') (JSON_parse (JSON_stringify ops (AppConfig_object c))) =
     Some (JSON_stringify ops (AppConfig_object c)) \<and>
   (s3_getObject e = store_getObject (bucketObject ops s out st) \<and>
    bucket_id e = bucket_name out \<longrightarrow>
    snd (config_handler e ev) =
      Inr \<lparr>statusCode = 200, body = config ops s out, headers = []\<rparr>) \<and>
   (s3_getObject e = store_getObject Map.empty \<longrightarrow>
    snd (config_handler e ev) = Inl (S3Error (ascii ''NoSuchKey'')))"
proof -
  have stored: "snd (config_handler e ev) =
      Inr \<lparr>statusCode = 200, body = JSON_stringify ops (AppConfig_object c), headers = []\<rparr>"
    if "s3_getObject e =
      store_getObject
        (putObject st (bucket_id e) configFilename (JSON_stringify ops (AppConfig_object c)))"
    for c
  proof -
    from that have "snd (getAppConfig e) = Inr (AppConfig_object c)"
      by (simp only: getAppConfig_stored parse_AppConfig option.case)
    then show ?thesis
      using stringify_AppConfig_ops [of "numbers e" c ops]
      by (simp add: config_handler_run del: JSON_stringify.simps)
  qed
  have again: "map_option (JSON_stringify ops') (JSON_parse (JSON_stringify ops (AppConfig_object c)))
     = Some (JSON_stringify ops (AppConfig_object c))"
    using stringify_AppConfig_ops [of ops' c ops]
    by (simp add: parse_AppConfig del: JSON_stringify.simps)
  have provisioned: "snd (config_handler e ev) =
      Inr \<lparr>statusCode = 200, body = config ops s out, headers = []\<rparr>"
    if "s3_getObject e = store_getObject (bucketObject ops s out st)"
      and "bucket_id e = bucket_name out"
    using stored [of "resolved_config s out"] that
    by (simp only: bucketObject_def config_def)
  have empty: "snd (config_handler e ev) = Inl (S3Error (ascii ''NoSuchKey''))"
    if "s3_getObject e = store_getObject Map.empty"
    using that by (simp add: config_handler_run snd_getAppConfig store_getObject_def)
  from stored [of c] again provisioned empty show ?thesis by blast
qed

text \<open>The example deployment: after provisioning the body is the published document;
  before it the handler fails.\<close>

theorem config_roundtrip_witness:
  \<open>snd (config_handler (example_env published unreachable) no_event) =
     Inr \<lparr>statusCode = 200,
          body = ascii ''{"clientID":"client1","apiUrl":"https://api.nunciato.org/stage/","redirectUrl":"https://api.nunciato.org/stage/callback/","authEndpoint":"https://cnunciato-test.auth.us-east-1.amazoncognito.com","signUpUrl":"https://cnunciato-test.auth.us-east-1.amazoncognito.com/signup?client_id=client1&response_type=code&redirect_uri=https://api.nunciato.org/stage/callback/","signInUrl":"https://cnunciato-test.auth.us-east-1.amazoncognito.com/login?client_id=client1&response_type=code&redirect_uri=https://api.nunciato.org/stage/callback/"}'',
          headers = []\<rparr> \<and>
   published (bucket_name example_outputs, configFilename) =
     Some \<lparr>Body = Some (ascii ''{"clientID":"client1","apiUrl":"https://api.nunciato.org/stage/","redirectUrl":"https://api.nunciato.org/stage/callback/","authEndpoint":"https://cnunciato-test.auth.us-east-1.amazoncognito.com","signUpUrl":"https://cnunciato-test.auth.us-east-1.amazoncognito.com/signup?client_id=client1&response_type=code&redirect_uri=https://api.nunciato.org/stage/callback/","signInUrl":"https://cnunciato-test.auth.us-east-1.amazoncognito.com/login?client_id=client1&response_type=code&redirect_uri=https://api.nunciato.org/stage/callback/"}'')\<rparr> \<and>
   snd (config_handler (example_env Map.empty unreachable) no_event) =
     Inl (S3Error (ascii ''NoSuchKey''))\<close>
proof -
  have doc: "published (bucket_name example_outputs, configFilename) =
     Some \<lparr>Body = Some (config plain_numbers source_settings example_outputs)\<rparr>"
    by (simp add: published_def bucketObject_def putObject_def)
  have a: "s3_getObject (example_env published unreachable) =
      store_getObject
        (putObject Map.empty (bucket_id (example_env published unreachable))
           configFilename
           (JSON_stringify plain_numbers
              (AppConfig_object (resolved_config source_settings example_outputs))))"
    by (simp add: published_def bucketObject_def config_def del: JSON_stringify.simps)
  have b: "s3_getObject (example_env Map.empty unreachable) = store_getObject Map.empty"
    by simp
  from a config_roundtrip [of "example_env published unreachable" Map.empty
        plain_numbers "resolved_config source_settings example_outputs"
        no_event plain_numbers, THEN conjunct1]
  have "snd (config_handler (example_env published unreachable)
          no_event) =
     Inr \<lparr>statusCode = 200,
          body = config plain_numbers source_settings example_outputs,
          headers = []\<rparr>"
    by (simp only: config_def simp_thms)
  moreover from b config_roundtrip [of "example_env Map.empty unreachable" Map.empty
        plain_numbers "resolved_config source_settings example_outputs"
        no_event plain_numbers, THEN conjunct2, THEN conjunct2, THEN conjunct2]
  have "snd (config_handler (example_env Map.empty unreachable)
          no_event) =
     Inl (S3Error (ascii ''NoSuchKey''))"
    by (simp only: simp_thms)
  ultimately show ?thesis
    using doc by (simp only: published_document [symmetric] simp_thms)
qed

end
